theory Spec2Isabelle
  imports Main "HOL-Library.Word" "HOL-Library.Multiset" "HOL-Library.Stream"
begin

unbundle bit_operations_syntax

section \<open>Data model\<close>

text \<open>
  Go's \<open>byte\<close> is an 8-bit word, \<open>int64\<close> and \<open>uint64\<close> are 64-bit words (an
  \<open>int64\<close> is read through \<open>sint\<close>, a \<open>uint64\<close> through \<open>unat\<close>). A \<open>[]byte\<close>
  and a \<open>net.HardwareAddr\<close> are lists of bytes; the nil slice is the empty list.
\<close>

type_synonym byte = "8 word"
type_synonym int64 = "64 word"
type_synonym uint64 = "64 word"

text \<open>
  The \<open>error\<close> values that reach the code: \<open>io.EOF\<close> and \<open>io.ErrUnexpectedEOF\<close> from
  \<open>binary.Read\<close>, the "invalid type" error of \<open>binary.Write\<close>, whatever error
  \<open>net.Interfaces\<close> reports, and the error built by \<open>fmt.Errorf\<close>.
\<close>

datatype error = EOF | ErrUnexpectedEOF | InvalidType | InterfacesError string | Errorf string

text \<open>
  The ways a call does not return: the run-time panics of \<open>make\<close> on a slice and on a
  channel and of an index out of range, and a receive that blocks forever because no
  goroutine sends on the channel.
\<close>

datatype failure =
  MakeSliceLenOutOfRange | MakeChanSizeOutOfRange | IndexOutOfRange | BlockedForever

text \<open>The error kinds the specification names (section 7 of the specification).\<close>

datatype spec_error = NoSuitableInterface | MalformedIdentifier

text \<open>
  \<open>net.Interface\<close>, with the fields of the Go struct. \<open>Flags\<close> is a set of bits:
  \<open>FlagUp = 1\<close>, \<open>FlagBroadcast = 2\<close>, \<open>FlagLoopback = 4\<close>, \<open>FlagPointToPoint = 8\<close>,
  \<open>FlagMulticast = 16\<close>.
\<close>

record Interface =
  Index :: int
  MTU :: int
  Name :: string
  HardwareAddr :: "byte list"
  Flags :: nat

section \<open>encoding/binary, as the code uses it\<close>

text \<open>
  \<open>binary.LittleEndian.PutUint64\<close>: \<open>b[0] = byte(v)\<close>, \<open>b[1] = byte(v >> 8)\<close>, ...,
  \<open>b[7] = byte(v >> 56)\<close>.
\<close>

definition PutUint64 :: "uint64 \<Rightarrow> byte list" where
  "PutUint64 v =
     [ucast v, ucast (drop_bit 8 v), ucast (drop_bit 16 v), ucast (drop_bit 24 v),
      ucast (drop_bit 32 v), ucast (drop_bit 40 v), ucast (drop_bit 48 v), ucast (drop_bit 56 v)]"

text \<open>
  \<open>binary.LittleEndian.Uint64\<close>:
  \<open>uint64(b[0]) | uint64(b[1])<<8 | ... | uint64(b[7])<<56\<close>. It is only called on a
  slice of 8 bytes.
\<close>

definition Uint64 :: "byte list \<Rightarrow> uint64" where
  "Uint64 b =
     ucast (b ! 0) OR push_bit 8 (ucast (b ! 1)) OR push_bit 16 (ucast (b ! 2)) OR
     push_bit 24 (ucast (b ! 3)) OR push_bit 32 (ucast (b ! 4)) OR push_bit 40 (ucast (b ! 5)) OR
     push_bit 48 (ucast (b ! 6)) OR push_bit 56 (ucast (b ! 7))"

text \<open>
  The values the code hands to \<open>binary.Write\<close>: an \<open>int64\<close> (the timestamp), a
  \<open>uint64\<close> (the digest), a \<open>net.HardwareAddr\<close> (a named slice of bytes) and a Go
  \<open>int\<close> (the worker index).
\<close>

datatype go_data = D_int64 int64 | D_uint64 uint64 | D_HardwareAddr "byte list" | D_int int

text \<open>
  \<open>binary.Write(w, binary.LittleEndian, data)\<close> on a \<open>bytes.Buffer\<close> holding \<open>buf\<close>;
  the result is the returned error and the buffer's new contents.
  \<^item> \<open>int64\<close> and \<open>uint64\<close> are fixed-size: 8 bytes, little-endian, are appended.
  \<^item> A slice of bytes is a slice of fixed-size values: its \<open>len\<close> bytes are appended.
  \<^item> Go's \<open>int\<close> is not a fixed-size type for encoding/binary (its \<open>sizeof\<close>
    lists \<open>Int8\<close> ... \<open>Int64\<close> and the unsigned ones, not \<open>Int\<close>): the data size
    is negative, \<open>Write\<close> returns the error "binary.Write: invalid type int" before
    writing anything, and the buffer is unchanged.
  A write to a \<open>bytes.Buffer\<close> itself returns no error.
\<close>

fun binary_Write :: "byte list \<Rightarrow> go_data \<Rightarrow> error option \<times> byte list" where
  "binary_Write buf (D_int64 v) = (None, buf @ PutUint64 v)"
| "binary_Write buf (D_uint64 v) = (None, buf @ PutUint64 v)"
| "binary_Write buf (D_HardwareAddr m) = (None, buf @ m)"
| "binary_Write buf (D_int i) = (Some InvalidType, buf)"

text \<open>
  \<open>binary.Read(r, binary.LittleEndian, &result)\<close> with \<open>result\<close> an \<open>int64\<close>, on a
  \<open>bytes.Reader\<close> over \<open>r\<close>: \<open>io.ReadFull\<close> asks for 8 bytes; with no byte left it
  returns \<open>io.EOF\<close>, with fewer than 8 \<open>io.ErrUnexpectedEOF\<close>, and in both cases
  \<open>Read\<close> returns the error and leaves \<open>result\<close> as it was. Otherwise \<open>result\<close> is
  set to \<open>int64(LittleEndian.Uint64(bs))\<close> for the 8 bytes read. The model returns the
  error and the value of \<open>result\<close> afterwards.
\<close>

definition binary_Read_int64 :: "byte list \<Rightarrow> int64 \<Rightarrow> error option \<times> int64" where
  "binary_Read_int64 r result =
     (if length r = 0 then (Some EOF, result)
      else if length r < 8 then (Some ErrUnexpectedEOF, result)
      else (None, Uint64 (take 8 r)))"

section \<open>The identifier codec\<close>

text \<open>
  \<open>GetUnixNanoFromID\<close>: the named result starts as 0, \<open>binary.Read\<close> is called on a
  reader over \<open>id\<close>, its error is dropped, and \<open>result\<close> is returned. The Go function
  has the one result, an \<open>int64\<close>.
\<close>

definition GetUnixNanoFromID :: "byte list \<Rightarrow> int64" where
  "GetUnixNanoFromID ident =
     (let buf = ident;
          (err, result) = binary_Read_int64 buf 0
      in result)"

text \<open>
  The specification's \<open>ExtractTimestamp\<close>, from its words (section 4.4): the first 8
  bytes of a 16-byte identifier as a little-endian signed 64-bit value, and a
  \<open>MalformedIdentifier\<close> error for an input that is not exactly 16 bytes.
\<close>

definition ExtractTimestamp_spec :: "byte list \<Rightarrow> spec_error + int64" where
  "ExtractTimestamp_spec ident =
     (if length ident \<noteq> 16 then Inl MalformedIdentifier else Inr (Uint64 (take 8 ident)))"

section \<open>The producer\<close>

text \<open>
  The variables of \<open>GenerateIDs\<close> that its goroutine keeps between iterations: the
  contents of the \<open>uniquePart\<close> buffer, the bytes written to the xxhash state since its
  last \<open>Reset\<close>, and the contents of the \<open>output\<close> buffer.
\<close>

record producer_state =
  uniquePart :: "byte list"
  hash :: "byte list"
  "output" :: "byte list"

text \<open>
  Before the goroutine starts: \<open>bytes.NewBuffer(make([]byte, 28, 28))\<close> holds 28 zero
  bytes, \<open>xxhash.New64()\<close> has been fed nothing, \<open>output\<close> is nil.
\<close>

definition GenerateIDs_init :: producer_state where
  "GenerateIDs_init = \<lparr>uniquePart = replicate 28 0, hash = [], output = []\<rparr>"

text \<open>
  One iteration of the goroutine's loop. \<open>Sum64\<close> is the xxhash digest (seed 0) of the
  bytes written since \<open>Reset\<close>; xxhash is a library outside the repository, so the
  digest function is a parameter. \<open>now\<close> is what \<open>time.Now().UnixNano()\<close> returns in
  this iteration. \<open>Reset\<close> empties a buffer or the hash state, \<open>Write\<close> on the hash
  appends to what it has been fed, \<open>new(bytes.Buffer)\<close> is a fresh empty buffer. Every
  error of \<open>binary.Write\<close> is dropped, as in the source. The result is the slice sent on
  \<open>resultChan\<close> and the state after the iteration.
\<close>

definition Buffer_Reset :: "byte list \<Rightarrow> byte list" where
  "Buffer_Reset buf = []"

definition XXHash64_Reset :: "byte list \<Rightarrow> byte list" where
  "XXHash64_Reset written = []"

definition XXHash64_Write :: "byte list \<Rightarrow> byte list \<Rightarrow> byte list" where
  "XXHash64_Write written p = written @ p"

definition new_Buffer :: "byte list" where
  "new_Buffer = []"

definition GenerateIDs_iteration ::
  "(byte list \<Rightarrow> uint64) \<Rightarrow> byte list \<Rightarrow> int \<Rightarrow> int64 \<Rightarrow> producer_state
     \<Rightarrow> byte list \<times> producer_state" where
  "GenerateIDs_iteration Sum64 mac routineID now st =
     (let uniquePart0 = Buffer_Reset (uniquePart st);
          timestamp = now;
          (err1, uniquePart1) = binary_Write uniquePart0 (D_int64 timestamp);
          (err2, uniquePart2) = binary_Write uniquePart1 (D_HardwareAddr mac);
          (err3, uniquePart3) = binary_Write uniquePart2 (D_int routineID);
          hash0 = XXHash64_Reset (hash st);
          hash1 = XXHash64_Write hash0 uniquePart3;
          output0 = new_Buffer;
          (err4, output1) = binary_Write output0 (D_int64 timestamp);
          (err5, output2) = binary_Write output1 (D_uint64 (Sum64 hash1))
      in (output2, \<lparr>uniquePart = uniquePart3, hash = hash1, output = output2\<rparr>))"

text \<open>
  The goroutine's \<open>for\<close> loop never ends; its behaviour is the sequence of slices it
  sends. \<open>GenerateIDs_sent\<close> gives the slices sent in the first iterations, one for each
  clock reading in the list, starting from state \<open>st\<close>.
\<close>

fun GenerateIDs_sent ::
  "(byte list \<Rightarrow> uint64) \<Rightarrow> byte list \<Rightarrow> int \<Rightarrow> producer_state \<Rightarrow> int64 list
     \<Rightarrow> byte list list" where
  "GenerateIDs_sent Sum64 mac routineID st [] = []"
| "GenerateIDs_sent Sum64 mac routineID st (now # clock) =
     (case GenerateIDs_iteration Sum64 mac routineID now st of
        (out, st') \<Rightarrow> out # GenerateIDs_sent Sum64 mac routineID st' clock)"

text \<open>
  The entropy bytes the specification describes (sections 3 and 4.2), from its words:
  the timestamp as 8 bytes little-endian, the hardware address, and the worker index as a
  little-endian integer of the platform's width (\<open>width\<close> bytes: 8 or 4), in two's
  complement.
\<close>

definition PutInt_spec :: "nat \<Rightarrow> int \<Rightarrow> byte list" where
  "PutInt_spec width i = map (\<lambda>k. word_of_int (i div 2 ^ (8 * k))) [0..<width]"

definition entropy_spec :: "nat \<Rightarrow> int64 \<Rightarrow> byte list \<Rightarrow> int \<Rightarrow> byte list" where
  "entropy_spec width timestamp mac routineID =
     PutUint64 timestamp @ mac @ PutInt_spec width routineID"

section \<open>The node identity resolver\<close>

text \<open>The \<open>for ... range ifaces\<close> loop of \<open>GetMACAddress\<close> and the return after it.\<close>

fun GetMACAddress_range :: "Interface list \<Rightarrow> error + byte list" where
  "GetMACAddress_range [] =
     Inl (Errorf ''Could not find a MAC address to use in unique IDs No suitable interface on this machine.'')"
| "GetMACAddress_range (iface # ifaces) =
     (if Name iface \<noteq> ''lo'' then Inr (HardwareAddr iface) else GetMACAddress_range ifaces)"

text \<open>
  \<open>GetMACAddress\<close>. The argument is what \<open>net.Interfaces()\<close> returns: an error, or the
  list of interfaces. Go's pair \<open>(nil, err)\<close> is \<open>Inl err\<close>, \<open>(addr, nil)\<close> is
  \<open>Inr addr\<close>.
\<close>

definition GetMACAddress :: "error + Interface list \<Rightarrow> error + byte list" where
  "GetMACAddress net_Interfaces =
     (case net_Interfaces of
        Inl err \<Rightarrow> Inl err
      | Inr ifaces \<Rightarrow> GetMACAddress_range ifaces)"

text \<open>
  Package \<open>net\<close> marks a loopback interface by a flag:
  \<open>iface.Flags&net.FlagLoopback != 0\<close>.
\<close>

definition FlagLoopback :: nat where
  "FlagLoopback = 4"

definition is_loopback :: "Interface \<Rightarrow> bool" where
  "is_loopback iface = (Flags iface AND FlagLoopback \<noteq> 0)"

text \<open>
  The specification's resolver, from its words (section 4.1): the hardware address of the
  first interface that is not the loopback interface, and a \<open>NoSuitableInterface\<close> error
  if the enumeration fails or no non-loopback interface exists.
\<close>

definition ResolveHardwareAddress_spec :: "error + Interface list \<Rightarrow> spec_error + byte list" where
  "ResolveHardwareAddress_spec net_Interfaces =
     (case net_Interfaces of
        Inl err \<Rightarrow> Inl NoSuitableInterface
      | Inr ifaces \<Rightarrow>
          (case find (\<lambda>iface. \<not> is_loopback iface) ifaces of
             None \<Rightarrow> Inl NoSuitableInterface
           | Some iface \<Rightarrow> Inr (HardwareAddr iface)))"

section \<open>The batch coordinator\<close>

text \<open>
  What \<open>GenerateNIDs\<close> changes outside its result: channels are made and goroutines
  are started. A channel is known by its position in \<open>chans\<close>, which records the buffer
  capacity it was made with. A goroutine started by \<open>GenerateIDs\<close> is recorded with the
  three arguments of that call; the slices it sends are given by \<open>GenerateIDs_sent\<close>
  from \<open>GenerateIDs_init\<close>.
\<close>

record goroutine =
  g_mac :: "byte list"
  g_routineID :: int
  g_resultChan :: nat

record runtime =
  chans :: "int list"
  goroutines :: "goroutine list"

text \<open>
  \<open>GenerateIDs(mac, routineID, resultChan)\<close>: allocates the buffer and the hash state,
  starts the goroutine with \<open>go\<close> and returns.
\<close>

definition GenerateIDs :: "byte list \<Rightarrow> int \<Rightarrow> nat \<Rightarrow> runtime \<Rightarrow> runtime" where
  "GenerateIDs mac routineID resultChan rt =
     rt\<lparr>goroutines := goroutines rt @
          [\<lparr>g_mac = mac, g_routineID = routineID, g_resultChan = resultChan\<rparr>]\<rparr>"

text \<open>
  \<open>make([][]byte, n, n)\<close> with \<open>n\<close> a \<open>uint64\<close>: a slice of \<open>n\<close> nil slices. The
  length of a slice is an \<open>int\<close>, and the run time panics ("makeslice: len out of
  range") when \<open>n\<close> converted to \<open>int\<close> is negative or the slice is larger than what
  the platform can allocate. \<open>maxSliceLen\<close> is the largest length \<open>make\<close> accepts for
  this slice type on the platform; it is never more than the largest \<open>int\<close>.
\<close>

definition make_slice :: "nat \<Rightarrow> uint64 \<Rightarrow> failure + byte list list" where
  "make_slice maxSliceLen n =
     (if maxSliceLen < unat n then Inl MakeSliceLenOutOfRange else Inr (replicate (unat n) []))"

text \<open>
  \<open>make(chan []byte, cap)\<close>: panics on a negative capacity, otherwise a new channel with
  that buffer capacity.
\<close>

definition make_chan :: "int \<Rightarrow> runtime \<Rightarrow> failure + nat \<times> runtime" where
  "make_chan cap rt =
     (if cap < 0 then Inl MakeChanSizeOutOfRange
      else Inr (length (chans rt), rt\<lparr>chans := chans rt @ [cap]\<rparr>))"

text \<open>
  The loop \<open>for routineID := 0; routineID < CPUCount; routineID++\<close> that calls
  \<open>GenerateIDs\<close>, from the current value of \<open>routineID\<close>.
\<close>

function GenerateNIDs_start :: "byte list \<Rightarrow> nat \<Rightarrow> int \<Rightarrow> int \<Rightarrow> runtime \<Rightarrow> runtime" where
  "GenerateNIDs_start mac results routineID CPUCount rt =
     (if routineID < CPUCount
      then GenerateNIDs_start mac results (routineID + 1) CPUCount
             (GenerateIDs mac routineID results rt)
      else rt)"
  by pat_completeness auto
termination
  by (relation "measure (\<lambda>(mac, results, routineID, CPUCount, rt). nat (CPUCount - routineID))")
     auto

text \<open>
  The loop \<open>for i := uint64(0); i < n; i++ { ids[i] = <-results }\<close>, from the current
  value of \<open>i\<close>. \<open>received\<close> is the sequence of slices that the receives on
  \<open>results\<close> yield from now on, in the order of receipt. A receive yields the next one
  when some goroutine sends on the channel (\<open>senders\<close>; a producer sends for ever); with
  no sender it blocks for ever. An index outside the slice panics.
\<close>

function GenerateNIDs_receive ::
  "bool \<Rightarrow> byte list stream \<Rightarrow> uint64 \<Rightarrow> uint64 \<Rightarrow> byte list list
     \<Rightarrow> failure + byte list list" where
  "GenerateNIDs_receive senders received i n ids =
     (if i < n then
        (if \<not> senders then Inl BlockedForever
         else if unat i < length ids
         then GenerateNIDs_receive senders (stl received) (i + 1) n (ids[unat i := shd received])
         else Inl IndexOutOfRange)
      else Inr ids)"
  by pat_completeness auto
termination
proof (relation "measure (\<lambda>(senders, received, i, n, ids). unat n - unat i)")
  fix senders :: bool and received :: "byte list stream" and i n :: uint64
    and ids :: "byte list list"
  assume "i < n"
  then have below: "unat i < unat n"
    by (simp add: word_less_nat_alt)
  moreover have "unat n < 2 ^ LENGTH(64)"
    by (rule unsigned_less)
  ultimately have "unat i + unat (1 :: uint64) < 2 ^ LENGTH(64)"
    by simp
  then have "unat (i + 1) = unat i + unat (1 :: uint64)"
    by (simp only: unat_add_lem)
  with below
  show "((senders, stl received, i + 1, n, ids[unat i := shd received]),
         (senders, received, i, n, ids))
        \<in> measure (\<lambda>(senders, received, i, n, ids). unat n - unat i)"
    by simp
qed simp

text \<open>
  \<open>GenerateNIDs(mac, n)\<close>. \<open>GOMAXPROCS\<close> is what \<open>runtime.GOMAXPROCS(0)\<close> returns (at
  least 1 in every Go program, and so small that \<open>128 * CPUCount\<close> is far from the
  largest \<open>int\<close>: the product is taken in the integers), \<open>rt\<close> the channels and
  goroutines before the call. The result is the outcome of the call, the returned \<open>ids\<close>
  or the failure, together with the channels and goroutines when the call returns or
  fails.
\<close>

definition GenerateNIDs ::
  "nat \<Rightarrow> int \<Rightarrow> byte list stream \<Rightarrow> byte list \<Rightarrow> uint64 \<Rightarrow> runtime
     \<Rightarrow> (failure + byte list list) \<times> runtime" where
  "GenerateNIDs maxSliceLen GOMAXPROCS received mac n rt =
     (let CPUCount = GOMAXPROCS in
      case make_slice maxSliceLen n of
        Inl f \<Rightarrow> (Inl f, rt)
      | Inr ids \<Rightarrow>
          (case make_chan (128 * CPUCount) rt of
             Inl f \<Rightarrow> (Inl f, rt)
           | Inr (results, rt1) \<Rightarrow>
               (let rt2 = GenerateNIDs_start mac results 0 CPUCount rt1;
                    senders = list_ex (\<lambda>g. g_resultChan g = results) (goroutines rt2)
                in (GenerateNIDs_receive senders received 0 n ids, rt2))))"

section \<open>Sorting by creation time\<close>

text \<open>
  The methods of \<open>ByIDCreationTime\<close>, a \<open>[][]byte\<close>. Indices are Go \<open>int\<close>s; an index
  that is negative or not below the length panics. \<open>Swap\<close> returns the slice after the
  exchange. \<open>Less\<close> compares two \<open>int64\<close>s, that is, signed.
\<close>

definition Len :: "byte list list \<Rightarrow> int" where
  "Len a = int (length a)"

definition Swap :: "byte list list \<Rightarrow> int \<Rightarrow> int \<Rightarrow> failure + byte list list" where
  "Swap a i j =
     (if 0 \<le> i \<and> i < int (length a) \<and> 0 \<le> j \<and> j < int (length a)
      then Inr (a[nat i := a ! nat j, nat j := a ! nat i])
      else Inl IndexOutOfRange)"

definition Less :: "byte list list \<Rightarrow> int \<Rightarrow> int \<Rightarrow> failure + bool" where
  "Less a i j =
     (if 0 \<le> i \<and> i < int (length a) \<and> 0 \<le> j \<and> j < int (length a)
      then Inr (GetUnixNanoFromID (a ! nat i) <s GetUnixNanoFromID (a ! nat j))
      else Inl IndexOutOfRange)"



text \<open>
  The function \<open>insertionSort\<close> of package \<open>sort\<close>. \<open>sort.Sort\<close> calls it on short
  ranges only (of at most 12 elements); a longer slice is sorted by other algorithms, which
  may leave identifiers of equal timestamp in another order. It is not a model of
  \<open>sort.Sort\<close>:
  \<open>for i := a + 1; i < b; i++ { for j := i; j > a && data.Less(j, j-1); j-- {
  data.Swap(j, j-1) } }\<close>. \<open>insertionSort_inner\<close> is the inner loop from the current
  \<open>j\<close>, \<open>insertionSort_outer\<close> the outer loop from the current \<open>i\<close>.
\<close>

function insertionSort_inner :: "byte list list \<Rightarrow> int \<Rightarrow> int \<Rightarrow> failure + byte list list" where
  "insertionSort_inner data a j =
     (if j > a then
        (case Less data j (j - 1) of
           Inl f \<Rightarrow> Inl f
         | Inr lt \<Rightarrow>
             if lt then
               (case Swap data j (j - 1) of
                  Inl f \<Rightarrow> Inl f
                | Inr data' \<Rightarrow> insertionSort_inner data' a (j - 1))
             else Inr data)
      else Inr data)"
  by pat_completeness auto
termination
  by (relation "measure (\<lambda>(data, a, j). nat (j - a))") auto

function insertionSort_outer ::
  "byte list list \<Rightarrow> int \<Rightarrow> int \<Rightarrow> int \<Rightarrow> failure + byte list list" where
  "insertionSort_outer data a i b =
     (if i < b then
        (case insertionSort_inner data a i of
           Inl f \<Rightarrow> Inl f
         | Inr data' \<Rightarrow> insertionSort_outer data' a (i + 1) b)
      else Inr data)"
  by pat_completeness auto
termination
  by (relation "measure (\<lambda>(data, a, i, b). nat (b - i))") auto

definition insertionSort :: "byte list list \<Rightarrow> int \<Rightarrow> int \<Rightarrow> failure + byte list list" where
  "insertionSort data a b = insertionSort_outer data a (a + 1) b"

text \<open>
  For the proofs about sorting: the timestamp of an identifier as an integer, and the
  insertion that the inner loop of \<open>insertionSort\<close> performs, on the reversed prefix:
  the new element passes every element with a later timestamp.
\<close>

definition creation_time :: "byte list \<Rightarrow> int" where
  "creation_time ident = sint (GetUnixNanoFromID ident)"

fun insert_from_right :: "byte list \<Rightarrow> byte list list \<Rightarrow> byte list list" where
  "insert_from_right x [] = [x]"
| "insert_from_right x (y # ys) =
     (if creation_time x < creation_time y then y # insert_from_right x ys else x # y # ys)"

section \<open>Little-endian encoding\<close>

lemma byte_of_uint64_bit:
  "bit (push_bit k (ucast (ucast (drop_bit k (v :: 64 word)) :: 8 word)) :: 64 word) n
     \<longleftrightarrow> k \<le> n \<and> n < k + 8 \<and> n < 64 \<and> bit v n"
  by (auto simp: bit_simps)

lemma low_byte_of_uint64_bit:
  "bit (ucast (ucast (v :: 64 word) :: 8 word) :: 64 word) n \<longleftrightarrow> n < 8 \<and> bit v n"
  by (auto simp: bit_simps)

lemma Uint64_Cons8:
  "Uint64 (b0 # b1 # b2 # b3 # b4 # b5 # b6 # b7 # bs) =
     ucast b0 OR push_bit 8 (ucast b1) OR push_bit 16 (ucast b2) OR push_bit 24 (ucast b3) OR
     push_bit 32 (ucast b4) OR push_bit 40 (ucast b5) OR push_bit 48 (ucast b6) OR
     push_bit 56 (ucast b7)"
  by (simp add: Uint64_def)

lemma length_PutUint64: "length (PutUint64 v) = 8"
  by (simp add: PutUint64_def)

text \<open>Reading back the 8 bytes that \<open>PutUint64\<close> wrote gives the value written.\<close>

lemma Uint64_PutUint64: "Uint64 (PutUint64 v) = v"
proof (rule bit_word_eqI)
  fix n :: nat
  assume "n < LENGTH(64)"
  then have n: "n < 64" by simp
  show "bit (Uint64 (PutUint64 v)) n = bit v n"
    unfolding PutUint64_def Uint64_Cons8
    using n
    by (simp only: bit_or_iff byte_of_uint64_bit low_byte_of_uint64_bit)
       (cases "bit v n"; simp; linarith)
qed

text \<open>The test vector of \<open>TestGetUnixNanoFromID\<close>.\<close>

lemma GetUnixNanoFromID_test_vector:
  "sint (GetUnixNanoFromID [0x7e, 0x58, 0xdc, 0xce, 0x28, 0xda, 0xbd, 0x14,
                            0x9b, 0x89, 0xd1, 0x2b, 0xc5, 0x8c, 0xa5, 0xe0])
     = 1494590520160966782"
  by (simp add: GetUnixNanoFromID_def binary_Read_int64_def Uint64_def)

section \<open>What the codec and the producer compute\<close>

lemma GetUnixNanoFromID_eq:
  "GetUnixNanoFromID ident = (if length ident < 8 then 0 else Uint64 (take 8 ident))"
  by (simp add: GetUnixNanoFromID_def binary_Read_int64_def)

lemma GenerateIDs_iteration_eq:
  "GenerateIDs_iteration Sum64 mac routineID now st =
     (PutUint64 now @ PutUint64 (Sum64 (PutUint64 now @ mac)),
      \<lparr>uniquePart = PutUint64 now @ mac, hash = PutUint64 now @ mac,
       output = PutUint64 now @ PutUint64 (Sum64 (PutUint64 now @ mac))\<rparr>)"
  by (simp add: GenerateIDs_iteration_def Buffer_Reset_def XXHash64_Reset_def
        XXHash64_Write_def new_Buffer_def)

lemma GenerateIDs_sent_eq:
  "GenerateIDs_sent Sum64 mac routineID st clock =
     map (\<lambda>now. PutUint64 now @ PutUint64 (Sum64 (PutUint64 now @ mac))) clock"
  by (induction clock arbitrary: st) (simp_all add: GenerateIDs_iteration_eq)

text \<open>
  Claim C1. The claim: in every iteration of a producer, the bytes hashed for the digest
  are the timestamp (8 bytes, little-endian), the 6 bytes of \<open>mac\<close> and the worker index
  as a little-endian integer of the platform's width. The code calls \<open>binary.Write\<close> on
  \<open>routineID\<close>, a Go \<open>int\<close>, which is refused as not fixed-size; the error is dropped and
  nothing is written. At \<open>mac = 00:11:22:33:44:55\<close>, \<open>routineID = 1\<close> and timestamp
  1494590520160966782 the bytes hashed are the 14 bytes of timestamp and address; the
  bytes the claim describes have 8 (or, on a 32-bit platform, 4) more; and the identifier
  sent is the one worker 0 sends for the same timestamp.
\<close>

theorem GenerateIDs_drops_routineID:
  "hash (snd (GenerateIDs_iteration Sum64 [0x00, 0x11, 0x22, 0x33, 0x44, 0x55] 1
                1494590520160966782 GenerateIDs_init)) =
     [0x7e, 0x58, 0xdc, 0xce, 0x28, 0xda, 0xbd, 0x14, 0x00, 0x11, 0x22, 0x33, 0x44, 0x55] \<and>
   entropy_spec 8 1494590520160966782 [0x00, 0x11, 0x22, 0x33, 0x44, 0x55] 1 =
     [0x7e, 0x58, 0xdc, 0xce, 0x28, 0xda, 0xbd, 0x14, 0x00, 0x11, 0x22, 0x33, 0x44, 0x55,
      1, 0, 0, 0, 0, 0, 0, 0] \<and>
   entropy_spec 4 1494590520160966782 [0x00, 0x11, 0x22, 0x33, 0x44, 0x55] 1 =
     [0x7e, 0x58, 0xdc, 0xce, 0x28, 0xda, 0xbd, 0x14, 0x00, 0x11, 0x22, 0x33, 0x44, 0x55,
      1, 0, 0, 0] \<and>
   fst (GenerateIDs_iteration Sum64 [0x00, 0x11, 0x22, 0x33, 0x44, 0x55] 1
          1494590520160966782 GenerateIDs_init) =
   fst (GenerateIDs_iteration Sum64 [0x00, 0x11, 0x22, 0x33, 0x44, 0x55] 0
          1494590520160966782 GenerateIDs_init)"
proof -
  have ts: "PutUint64 1494590520160966782 = [0x7e, 0x58, 0xdc, 0xce, 0x28, 0xda, 0xbd, 0x14]"
    by (simp add: PutUint64_def)
  have i8: "PutInt_spec 8 1 = [1, 0, 0, 0, 0, 0, 0, 0]"
    by (simp add: PutInt_spec_def upt_conv_Cons)
  have i4: "PutInt_spec 4 1 = [1, 0, 0, 0]"
    by (simp add: PutInt_spec_def upt_conv_Cons)
  show ?thesis
    by (simp only: GenerateIDs_iteration_eq entropy_spec_def ts i8 i4) simp
qed

text \<open>
  The same for every input: the bytes hashed are the timestamp and the address, and the
  identifier does not depend on the worker index.
\<close>

lemma GenerateIDs_hashed_bytes:
  "hash (snd (GenerateIDs_iteration Sum64 mac routineID now st)) = PutUint64 now @ mac"
  by (simp add: GenerateIDs_iteration_eq)

lemma GenerateIDs_same_for_all_workers:
  "fst (GenerateIDs_iteration Sum64 mac routineID now st) =
   fst (GenerateIDs_iteration Sum64 mac routineID' now st')"
  by (simp add: GenerateIDs_iteration_eq)

text \<open>
  Claim C2. The claim: for every input whose length is not 16, \<open>GetUnixNanoFromID\<close>
  fails with a \<open>MalformedIdentifier\<close> error rather than returning a value. The Go
  function has no error result and reaches no panic, so a call returns its \<open>int64\<close>; in
  the result type of \<open>ExtractTimestamp_spec\<close> that is \<open>Inr\<close> of the value. On the
  3-byte input \<open>[1, 2, 3]\<close> it returns 0, and on the 9-byte input below it returns
  1494590520160966782, where the specified operation fails.
\<close>

theorem GetUnixNanoFromID_not_16_counterexample:
  "length [1, 2, 3 :: byte] \<noteq> 16 \<and>
   ExtractTimestamp_spec [1, 2, 3] = Inl MalformedIdentifier \<and>
   Inr (GetUnixNanoFromID [1, 2, 3]) \<noteq> ExtractTimestamp_spec [1, 2, 3] \<and>
   GetUnixNanoFromID [1, 2, 3] = 0 \<and>
   length [0x7e, 0x58, 0xdc, 0xce, 0x28, 0xda, 0xbd, 0x14, 0x9b :: byte] \<noteq> 16 \<and>
   Inr (GetUnixNanoFromID [0x7e, 0x58, 0xdc, 0xce, 0x28, 0xda, 0xbd, 0x14, 0x9b])
     \<noteq> ExtractTimestamp_spec [0x7e, 0x58, 0xdc, 0xce, 0x28, 0xda, 0xbd, 0x14, 0x9b] \<and>
   sint (GetUnixNanoFromID [0x7e, 0x58, 0xdc, 0xce, 0x28, 0xda, 0xbd, 0x14, 0x9b])
     = 1494590520160966782"
  by (simp add: GetUnixNanoFromID_eq ExtractTimestamp_spec_def Uint64_def)

text \<open>
  Claim C2, as the code has it: for every input whose length is not 16,
  \<open>GetUnixNanoFromID\<close> returns a value and does not fail: the first 8 bytes read as a
  little-endian 64-bit integer when there are at least 8 bytes (the bytes after them are
  ignored), and 0 when there are fewer; nothing outside the input is read. The specified
  operation fails on each of these inputs.
\<close>

theorem GetUnixNanoFromID_not_16_returns:
  "length ident \<noteq> 16 \<Longrightarrow>
     GetUnixNanoFromID ident = (if length ident < 8 then 0 else Uint64 (take 8 ident)) \<and>
     Inr (GetUnixNanoFromID ident) \<noteq> ExtractTimestamp_spec ident"
proof
  show "GetUnixNanoFromID ident = (if length ident < 8 then 0 else Uint64 (take 8 ident))"
    by (rule GetUnixNanoFromID_eq)
next
  assume "length ident \<noteq> 16"
  then have "ExtractTimestamp_spec ident = Inl MalformedIdentifier"
    by (simp add: ExtractTimestamp_spec_def)
  then show "Inr (GetUnixNanoFromID ident) \<noteq> ExtractTimestamp_spec ident"
    by simp
qed

theorem GetUnixNanoFromID_not_16_returns_witness:
  "length [0x7e, 0x58, 0xdc, 0xce, 0x28, 0xda, 0xbd, 0x14, 0x9b :: byte] \<noteq> 16 \<and>
   (GetUnixNanoFromID [0x7e, 0x58, 0xdc, 0xce, 0x28, 0xda, 0xbd, 0x14, 0x9b] =
      (if length [0x7e, 0x58, 0xdc, 0xce, 0x28, 0xda, 0xbd, 0x14, 0x9b :: byte] < 8 then 0
       else Uint64 (take 8 [0x7e, 0x58, 0xdc, 0xce, 0x28, 0xda, 0xbd, 0x14, 0x9b])) \<and>
    Inr (GetUnixNanoFromID [0x7e, 0x58, 0xdc, 0xce, 0x28, 0xda, 0xbd, 0x14, 0x9b])
      \<noteq> ExtractTimestamp_spec [0x7e, 0x58, 0xdc, 0xce, 0x28, 0xda, 0xbd, 0x14, 0x9b])"
proof -
  have len: "length [0x7e, 0x58, 0xdc, 0xce, 0x28, 0xda, 0xbd, 0x14, 0x9b :: byte] \<noteq> 16"
    by simp
  from len GetUnixNanoFromID_not_16_returns [OF len] show ?thesis by (rule conjI)
qed

text \<open>
  Claim C4. Every identifier a producer sends has exactly 16 bytes: the 8 bytes of the
  little-endian timestamp, then the 8 bytes of the little-endian digest of the bytes
  hashed in that iteration. This holds for one iteration from any state, and so for each
  of the slices sent in any number of iterations.
\<close>

theorem GenerateIDs_identifier_length_16:
  "length (fst (GenerateIDs_iteration Sum64 mac routineID now st)) = 16 \<and>
   take 8 (fst (GenerateIDs_iteration Sum64 mac routineID now st)) = PutUint64 now \<and>
   drop 8 (fst (GenerateIDs_iteration Sum64 mac routineID now st)) =
     PutUint64 (Sum64 (hash (snd (GenerateIDs_iteration Sum64 mac routineID now st)))) \<and>
   map length (GenerateIDs_sent Sum64 mac routineID st clock) = replicate (length clock) 16"
  by (simp add: GenerateIDs_iteration_eq GenerateIDs_sent_eq length_PutUint64 comp_def
        map_replicate_const)

text \<open>
  Claim C5. Round trip: \<open>GetUnixNanoFromID\<close> applied to the identifier of an iteration
  that captured the timestamp \<open>now\<close> returns \<open>now\<close>; the first 8 bytes of the
  identifier, read as a little-endian signed 64-bit integer, are the timestamp; and the
  timestamps extracted from the slices a producer sends are its clock readings, in order.
\<close>

theorem GetUnixNanoFromID_roundtrip:
  "GetUnixNanoFromID (fst (GenerateIDs_iteration Sum64 mac routineID now st)) = now \<and>
   sint (Uint64 (take 8 (fst (GenerateIDs_iteration Sum64 mac routineID now st)))) = sint now \<and>
   map GetUnixNanoFromID (GenerateIDs_sent Sum64 mac routineID st clock) = clock"
  by (simp add: GenerateIDs_iteration_eq GenerateIDs_sent_eq GetUnixNanoFromID_eq
        length_PutUint64 Uint64_PutUint64 comp_def)

text \<open>
  Claim C9. For every input shorter than 8 bytes, the empty one included, the read inside
  \<open>GetUnixNanoFromID\<close> fails, the error is dropped and the function returns 0: the same
  result as for a well-formed 16-byte identifier whose timestamp is 0, whatever its
  digest. The function's only result is the \<open>int64\<close>, so no input makes it signal an
  error.
\<close>

theorem GetUnixNanoFromID_short_input_zero:
  "length ident < 8 \<Longrightarrow>
     fst (binary_Read_int64 ident 0) \<noteq> None \<and>
     GetUnixNanoFromID ident = 0 \<and>
     GetUnixNanoFromID ident = GetUnixNanoFromID (PutUint64 0 @ PutUint64 digest) \<and>
     length (PutUint64 0 @ PutUint64 digest) = 16"
proof (intro conjI)
  assume short: "length ident < 8"
  then show "fst (binary_Read_int64 ident 0) \<noteq> None"
    by (simp add: binary_Read_int64_def)
  from short show zero: "GetUnixNanoFromID ident = 0"
    by (simp add: GetUnixNanoFromID_eq)
  have "GetUnixNanoFromID (PutUint64 0 @ PutUint64 digest) = Uint64 (PutUint64 0)"
    by (simp add: GetUnixNanoFromID_eq length_PutUint64)
  with zero show "GetUnixNanoFromID ident = GetUnixNanoFromID (PutUint64 0 @ PutUint64 digest)"
    by (simp add: Uint64_PutUint64)
  show "length (PutUint64 0 @ PutUint64 digest) = 16"
    by (simp add: length_PutUint64)
qed

theorem GetUnixNanoFromID_short_input_zero_witness:
  "length [1, 2, 3 :: byte] < 8 \<and>
     (fst (binary_Read_int64 [1, 2, 3] 0) \<noteq> None \<and>
      GetUnixNanoFromID [1, 2, 3] = 0 \<and>
      GetUnixNanoFromID [1, 2, 3] = GetUnixNanoFromID (PutUint64 0 @ PutUint64 7) \<and>
      length (PutUint64 0 @ PutUint64 7) = 16)"
proof -
  have short: "length [1, 2, 3 :: byte] < 8" by simp
  from short GetUnixNanoFromID_short_input_zero [OF short, of 7] show ?thesis by (rule conjI)
qed

section \<open>The node identity resolver\<close>

lemma GetMACAddress_range_find:
  "GetMACAddress_range ifaces =
     (case find (\<lambda>iface. Name iface \<noteq> ''lo'') ifaces of
        None \<Rightarrow> Inl (Errorf ''Could not find a MAC address to use in unique IDs No suitable interface on this machine.'')
      | Some iface \<Rightarrow> Inr (HardwareAddr iface))"
  by (induction ifaces) simp_all

lemma GetMACAddress_range_fails_iff:
  "isl (GetMACAddress_range ifaces) \<longleftrightarrow> (\<forall>iface \<in> set ifaces. Name iface = ''lo'')"
  by (induction ifaces) simp_all

text \<open>
  What the code computes: the address of the first interface whose name is not the
  literal \<open>lo\<close>; the enumeration's error is passed on; the call fails exactly when the
  enumeration failed or every interface is named \<open>lo\<close>.
\<close>

lemma GetMACAddress_first_not_lo:
  "GetMACAddress (Inl err) = Inl err \<and>
   GetMACAddress (Inr ifaces) =
     (case find (\<lambda>iface. Name iface \<noteq> ''lo'') ifaces of
        None \<Rightarrow> Inl (Errorf ''Could not find a MAC address to use in unique IDs No suitable interface on this machine.'')
      | Some iface \<Rightarrow> Inr (HardwareAddr iface)) \<and>
   (isl (GetMACAddress r) \<longleftrightarrow>
      isl r \<or> (\<exists>ifaces. r = Inr ifaces \<and> (\<forall>iface \<in> set ifaces. Name iface = ''lo'')))"
proof (intro conjI)
  show "GetMACAddress (Inl err) = Inl err"
    by (simp add: GetMACAddress_def)
  show "GetMACAddress (Inr ifaces) =
     (case find (\<lambda>iface. Name iface \<noteq> ''lo'') ifaces of
        None \<Rightarrow> Inl (Errorf ''Could not find a MAC address to use in unique IDs No suitable interface on this machine.'')
      | Some iface \<Rightarrow> Inr (HardwareAddr iface))"
    by (simp add: GetMACAddress_def GetMACAddress_range_find)
  show "isl (GetMACAddress r) \<longleftrightarrow>
      isl r \<or> (\<exists>ifaces. r = Inr ifaces \<and> (\<forall>iface \<in> set ifaces. Name iface = ''lo''))"
    by (cases r) (simp_all add: GetMACAddress_def GetMACAddress_range_fails_iff)
qed

text \<open>
  Where the loopback interfaces are exactly the interfaces named \<open>lo\<close>, as on Linux, the
  code does what the specification's resolver does, every error of the code being the
  specification's \<open>NoSuitableInterface\<close>.
\<close>

lemma GetMACAddress_range_spec_when_lo:
  "(\<forall>iface \<in> set ifaces. is_loopback iface \<longleftrightarrow> Name iface = ''lo'') \<Longrightarrow>
     map_sum (\<lambda>err. NoSuitableInterface) id (GetMACAddress_range ifaces) =
     ResolveHardwareAddress_spec (Inr ifaces)"
  by (induction ifaces) (simp_all add: ResolveHardwareAddress_spec_def)

lemma GetMACAddress_spec_when_lo:
  "(\<forall>iface \<in> set ifaces. is_loopback iface \<longleftrightarrow> Name iface = ''lo'') \<Longrightarrow>
     map_sum (\<lambda>err. NoSuitableInterface) id (GetMACAddress (Inr ifaces)) =
     ResolveHardwareAddress_spec (Inr ifaces)"
  by (simp add: GetMACAddress_def GetMACAddress_range_spec_when_lo)

text \<open>
  Claim C7. The claim: \<open>GetMACAddress\<close> returns the hardware address of the first
  enumerated interface that is not the loopback interface, and fails with
  \<open>NoSuitableInterface\<close> exactly when the enumeration fails or no non-loopback interface
  exists; the doc comment of the function says the same ("the first non-loopback MAC
  address"). The code takes an interface for the loopback interface only when its name is
  \<open>lo\<close>. On the list of \<open>lo0\<close>, which has the loopback flag and no hardware address, and
  \<open>en0\<close> with the address \<open>00:11:22:33:44:55\<close>, the code returns the empty address of
  the loopback interface where the claim gives the address of \<open>en0\<close>; on the list of
  \<open>lo0\<close> alone it returns the empty address where the claim gives the error.
\<close>

theorem GetMACAddress_returns_loopback_address:
  "is_loopback \<lparr>Index = 1, MTU = 16384, Name = ''lo0'', HardwareAddr = [], Flags = 5\<rparr> \<and>
   \<not> is_loopback \<lparr>Index = 2, MTU = 1500, Name = ''en0'',
            HardwareAddr = [0x00, 0x11, 0x22, 0x33, 0x44, 0x55], Flags = 19\<rparr> \<and>
   GetMACAddress
     (Inr [\<lparr>Index = 1, MTU = 16384, Name = ''lo0'', HardwareAddr = [], Flags = 5\<rparr>,
           \<lparr>Index = 2, MTU = 1500, Name = ''en0'',
            HardwareAddr = [0x00, 0x11, 0x22, 0x33, 0x44, 0x55], Flags = 19\<rparr>]) = Inr [] \<and>
   ResolveHardwareAddress_spec
     (Inr [\<lparr>Index = 1, MTU = 16384, Name = ''lo0'', HardwareAddr = [], Flags = 5\<rparr>,
           \<lparr>Index = 2, MTU = 1500, Name = ''en0'',
            HardwareAddr = [0x00, 0x11, 0x22, 0x33, 0x44, 0x55], Flags = 19\<rparr>]) = Inr [0x00, 0x11, 0x22, 0x33, 0x44, 0x55] \<and>
   GetMACAddress
     (Inr [\<lparr>Index = 1, MTU = 16384, Name = ''lo0'', HardwareAddr = [], Flags = 5\<rparr>]) = Inr [] \<and>
   ResolveHardwareAddress_spec
     (Inr [\<lparr>Index = 1, MTU = 16384, Name = ''lo0'', HardwareAddr = [], Flags = 5\<rparr>]) = Inl NoSuitableInterface"
  by (simp add: GetMACAddress_def ResolveHardwareAddress_spec_def is_loopback_def
        FlagLoopback_def)

text \<open>
  Claim C10. \<open>GetMACAddress\<close> compares the name with the literal \<open>lo\<close> and returns the
  address field as it is: whenever the first interface has another name, the call
  succeeds with that interface's address, of whatever length. So there are interface
  lists for which it succeeds with an empty address (the first interface not named \<open>lo\<close>
  has none, or the loopback interface is named \<open>lo0\<close>) and lists for which it succeeds
  with an address that is not empty and not of 6 bytes.
\<close>

theorem GetMACAddress_no_validation:
  "(Name iface \<noteq> ''lo'' \<longrightarrow>
      GetMACAddress (Inr (iface # ifaces)) = Inr (HardwareAddr iface)) \<and>
   GetMACAddress
     (Inr [\<lparr>Index = 1, MTU = 16384, Name = ''lo0'', HardwareAddr = [], Flags = 5\<rparr>,
           \<lparr>Index = 2, MTU = 1500, Name = ''en0'',
            HardwareAddr = [0x00, 0x11, 0x22, 0x33, 0x44, 0x55], Flags = 19\<rparr>]) = Inr [] \<and>
   GetMACAddress
     (Inr [\<lparr>Index = 1, MTU = 65536, Name = ''lo'', HardwareAddr = [], Flags = 5\<rparr>,
           \<lparr>Index = 2, MTU = 1500, Name = ''tun0'', HardwareAddr = [], Flags = 17\<rparr>,
           \<lparr>Index = 3, MTU = 1500, Name = ''eth0'',
            HardwareAddr = [0x00, 0x11, 0x22, 0x33, 0x44, 0x55], Flags = 19\<rparr>]) = Inr [] \<and>
   (\<exists>ifaces' addr. GetMACAddress (Inr ifaces') = Inr addr \<and> addr \<noteq> [] \<and> length addr \<noteq> 6)"
proof -
  have "GetMACAddress
          (Inr [\<lparr>Index = 1, MTU = 1500, Name = ''fw0'',
                 HardwareAddr = [0x00, 0x11, 0x22, 0x33, 0x44, 0x55, 0x66, 0x77],
                 Flags = 19\<rparr>]) =
        Inr [0x00, 0x11, 0x22, 0x33, 0x44, 0x55, 0x66, 0x77]"
    by (simp add: GetMACAddress_def)
  then have "\<exists>ifaces' addr. GetMACAddress (Inr ifaces') = Inr addr \<and> addr \<noteq> [] \<and> length addr \<noteq> 6"
    by (intro exI [of _ "[\<lparr>Index = 1, MTU = 1500, Name = ''fw0'',
                 HardwareAddr = [0x00, 0x11, 0x22, 0x33, 0x44, 0x55, 0x66, 0x77],
                 Flags = 19\<rparr>]"] exI [of _ "[0x00, 0x11, 0x22, 0x33, 0x44, 0x55, 0x66, 0x77]"])
       simp
  then show ?thesis
    by (simp add: GetMACAddress_def)
qed

theorem GetMACAddress_no_validation_witness:
  "Name \<lparr>Index = 1, MTU = 16384, Name = ''lo0'', HardwareAddr = [], Flags = 5\<rparr> \<noteq> ''lo'' \<and>
   GetMACAddress
     (Inr [\<lparr>Index = 1, MTU = 16384, Name = ''lo0'', HardwareAddr = [], Flags = 5\<rparr>,
           \<lparr>Index = 2, MTU = 1500, Name = ''en0'',
            HardwareAddr = [0x00, 0x11, 0x22, 0x33, 0x44, 0x55], Flags = 19\<rparr>]) =
     Inr (HardwareAddr \<lparr>Index = 1, MTU = 16384, Name = ''lo0'', HardwareAddr = [], Flags = 5\<rparr>)"
  using GetMACAddress_no_validation
          [of "\<lparr>Index = 1, MTU = 16384, Name = ''lo0'', HardwareAddr = [], Flags = 5\<rparr>"
              "[\<lparr>Index = 2, MTU = 1500, Name = ''en0'',
                 HardwareAddr = [0x00, 0x11, 0x22, 0x33, 0x44, 0x55], Flags = 19\<rparr>]"]
  by simp

section \<open>The batch coordinator\<close>

lemma uint64_succ: "i < n \<Longrightarrow> unat ((i :: uint64) + 1) = Suc (unat i)"
proof -
  assume "i < n"
  then have "unat i < unat n" by (simp add: word_less_nat_alt)
  moreover have "unat n < 2 ^ LENGTH(64)" by (rule unsigned_less)
  ultimately have "unat i + unat (1 :: uint64) < 2 ^ LENGTH(64)" by simp
  then have "unat (i + 1) = unat i + unat (1 :: uint64)" by (simp only: unat_add_lem)
  then show ?thesis by simp
qed

text \<open>The starting loop adds one goroutine for each worker index left, in order.\<close>

lemma GenerateNIDs_start_eq:
  "0 \<le> routineID \<Longrightarrow>
   GenerateNIDs_start mac results routineID CPUCount rt =
     rt\<lparr>goroutines := goroutines rt @
          map (\<lambda>k. \<lparr>g_mac = mac, g_routineID = int k, g_resultChan = results\<rparr>)
            [nat routineID..<nat CPUCount]\<rparr>"
proof (induction mac results routineID CPUCount rt rule: GenerateNIDs_start.induct)
  case (1 mac results routineID CPUCount rt)
  show ?case
  proof (cases "routineID < CPUCount")
    case True
    with "1.prems" have "nat routineID < nat CPUCount"
      by linarith
    then have "[nat routineID..<nat CPUCount] = nat routineID # [Suc (nat routineID)..<nat CPUCount]"
      by (rule upt_conv_Cons)
    moreover from "1.prems" have "Suc (nat routineID) = nat (routineID + 1)"
      by linarith
    ultimately have range: "[nat routineID..<nat CPUCount] =
        nat routineID # [nat (routineID + 1)..<nat CPUCount]"
      by simp
    from True "1.prems" have "GenerateNIDs_start mac results routineID CPUCount rt =
        GenerateNIDs_start mac results (routineID + 1) CPUCount
          (GenerateIDs mac routineID results rt)"
      by (subst GenerateNIDs_start.simps) (simp del: GenerateNIDs_start.simps)
    also from True "1.prems" have "\<dots> = (GenerateIDs mac routineID results rt)
        \<lparr>goroutines := goroutines (GenerateIDs mac routineID results rt) @
          map (\<lambda>k. \<lparr>g_mac = mac, g_routineID = int k, g_resultChan = results\<rparr>)
            [nat (routineID + 1)..<nat CPUCount]\<rparr>"
      by (intro "1.IH") simp_all
    also from "1.prems" have "\<dots> = rt\<lparr>goroutines := goroutines rt @
          map (\<lambda>k. \<lparr>g_mac = mac, g_routineID = int k, g_resultChan = results\<rparr>)
            [nat routineID..<nat CPUCount]\<rparr>"
      by (simp add: range GenerateIDs_def)
    finally show ?thesis .
  next
    case False
    with "1.prems" have "[nat routineID..<nat CPUCount] = []" by simp
    with False show ?thesis
      by (subst GenerateNIDs_start.simps) (simp del: GenerateNIDs_start.simps)
  qed
qed

text \<open>
  With a sender on the channel, the receiving loop keeps the entries below \<open>i\<close> and
  fills the others with the slices received, in order.
\<close>

lemma GenerateNIDs_receive_eq:
  "unat i \<le> unat n \<Longrightarrow> length ids = unat n \<Longrightarrow>
   GenerateNIDs_receive True received i n ids =
     Inr (take (unat i) ids @ stake (unat n - unat i) received)"
proof (induction True received i n ids rule: GenerateNIDs_receive.induct)
  case (1 received i n ids)
  show ?case
  proof (cases "i < n")
    case True
    then have lt: "unat i < unat n" by (simp add: word_less_nat_alt)
    have suc: "unat (i + 1) = Suc (unat i)" using True by (rule uint64_succ)
    define d where "d = unat n - Suc (unat i)"
    from lt have d: "unat n - unat i = Suc d" and d': "unat n - Suc (unat i) = d"
      by (simp_all add: d_def)
    from True lt "1.prems" have "GenerateNIDs_receive True received i n ids =
        GenerateNIDs_receive True (stl received) (i + 1) n (ids[unat i := shd received])"
      by (subst GenerateNIDs_receive.simps) (simp del: GenerateNIDs_receive.simps)
    also from True lt "1.prems" have "\<dots> =
        Inr (take (unat (i + 1)) (ids[unat i := shd received]) @
             stake (unat n - unat (i + 1)) (stl received))"
      by (intro "1.hyps") (simp_all add: suc)
    also from lt "1.prems" have "\<dots> = Inr (take (unat i) ids @ stake (unat n - unat i) received)"
      by (simp add: suc d d' take_Suc_conv_app_nth)
    finally show ?thesis .
  next
    case False
    with "1.prems" have "unat i = unat n" by (simp add: word_less_nat_alt)
    with False "1.prems" show ?thesis
      by (subst GenerateNIDs_receive.simps) (simp del: GenerateNIDs_receive.simps)
  qed
qed


lemma GenerateNIDs_runtime:
  "unat n \<le> maxSliceLen \<Longrightarrow> 0 \<le> W \<Longrightarrow>
   snd (GenerateNIDs maxSliceLen W received mac n rt) =
      rt\<lparr>chans := chans rt @ [128 * W],
         goroutines := goroutines rt @
           map (\<lambda>k. \<lparr>g_mac = mac, g_routineID = int k, g_resultChan = length (chans rt)\<rparr>)
             [0..<nat W]\<rparr>"
  by (simp add: GenerateNIDs_def make_slice_def make_chan_def GenerateNIDs_start_eq
        del: GenerateNIDs_start.simps GenerateNIDs_receive.simps)

lemma GenerateNIDs_ids:
  "unat n \<le> maxSliceLen \<Longrightarrow> 1 \<le> W \<Longrightarrow>
   fst (GenerateNIDs maxSliceLen W received mac n rt) = Inr (stake (unat n) received)"
proof -
  assume n: "unat n \<le> maxSliceLen" and W: "1 \<le> W"
  then have "0 \<in> set [0..<nat W]" by simp
  then have "list_ex (\<lambda>g. g_resultChan g = length (chans rt))
          (goroutines rt @
           map (\<lambda>k. \<lparr>g_mac = mac, g_routineID = int k, g_resultChan = length (chans rt)\<rparr>)
             [0..<nat W])"
    unfolding list_ex_iff by (intro bexI [of _ "\<lparr>g_mac = mac, g_routineID = int 0, g_resultChan = length (chans rt)\<rparr>"]) auto
  then show ?thesis
    using n W
    by (simp add: GenerateNIDs_def make_slice_def make_chan_def GenerateNIDs_start_eq
          GenerateNIDs_receive_eq del: GenerateNIDs_start.simps GenerateNIDs_receive.simps)
qed

text \<open>
  Claim C3. The claim: for every hardware address and every count \<open>n\<close>,
  \<open>GenerateNIDs(mac, n)\<close> returns a sequence of exactly \<open>n\<close> identifiers. \<open>n\<close> is a
  \<open>uint64\<close> and the first statement to use it is \<open>make([][]byte, n, n)\<close>: at
  \<open>n = 2^63\<close>, which is no \<open>int\<close> even where \<open>int\<close> has 64 bits, the call panics and
  returns nothing.
\<close>

theorem GenerateNIDs_huge_n_counterexample:
  "fst (GenerateNIDs (2 ^ 63 - 1) 4 (sconst []) [0x00, 0x11, 0x22, 0x33, 0x44, 0x55] (2 ^ 63)
         \<lparr>chans = [], goroutines = []\<rparr>) = Inl MakeSliceLenOutOfRange"
  by (simp add: GenerateNIDs_def make_slice_def
        del: GenerateNIDs_start.simps GenerateNIDs_receive.simps)

text \<open>
  Claim C3, as the code has it: for every hardware address and every count \<open>n\<close> that
  \<open>make\<close> accepts as the length of the slice (\<open>n = 0\<close> included), with at least one
  producer started (\<open>GOMAXPROCS\<close> is at least 1), \<open>GenerateNIDs(mac, n)\<close> returns a
  sequence of exactly \<open>n\<close> elements, and its element \<open>i\<close> is the slice the receive
  number \<open>i\<close> on the shared channel yielded.
\<close>

theorem GenerateNIDs_returns_n_received:
  "unat n \<le> maxSliceLen \<Longrightarrow> 1 \<le> W \<Longrightarrow>
     fst (GenerateNIDs maxSliceLen W received mac n rt) = Inr (stake (unat n) received) \<and>
     length (stake (unat n) received) = unat n \<and>
     (\<forall>i < unat n. stake (unat n) received ! i = received !! i)"
proof (intro conjI allI impI)
  assume "unat n \<le> maxSliceLen" and "1 \<le> W"
  then show "fst (GenerateNIDs maxSliceLen W received mac n rt) = Inr (stake (unat n) received)"
    by (rule GenerateNIDs_ids)
next
  show "length (stake (unat n) received) = unat n"
    by simp
next
  fix i
  assume "i < unat n"
  then show "stake (unat n) received ! i = received !! i"
    by (rule stake_nth)
qed

theorem GenerateNIDs_returns_n_received_witness:
  "unat (3 :: uint64) \<le> 2 ^ 63 - 1 \<and> (1 :: int) \<le> 4 \<and>
   fst (GenerateNIDs (2 ^ 63 - 1) 4 ([1, 1] ## [2, 2] ## [3, 3] ## sconst [])
          [0x00, 0x11, 0x22, 0x33, 0x44, 0x55] 3 \<lparr>chans = [], goroutines = []\<rparr>) =
     Inr [[1, 1], [2, 2], [3, 3]]"
proof -
  have n: "unat (3 :: uint64) \<le> 2 ^ 63 - 1" and W: "(1 :: int) \<le> 4"
    by simp_all
  have "stake 3 ([1, 1] ## [2, 2] ## [3, 3] ## sconst []) = [[1, 1], [2, 2], [3, 3 :: byte]]"
    by (simp add: numeral_3_eq_3)
  moreover have "unat (3 :: uint64) = 3"
    by simp
  ultimately have "stake (unat (3 :: uint64)) ([1, 1] ## [2, 2] ## [3, 3] ## sconst []) =
      [[1, 1], [2, 2], [3, 3 :: byte]]"
    by (simp only:)
  with n W GenerateNIDs_returns_n_received [OF n W] show ?thesis
    by (simp only:)
qed

text \<open>
  Claim C8. The claim: for every hardware address and every count \<open>n\<close>, \<open>GenerateNIDs\<close>
  starts exactly \<open>W\<close> producers on one channel of capacity \<open>128 * W\<close>. The slice of
  \<open>n\<close> entries is made before the channel: at \<open>n = 2^64 - 1\<close> the call panics there,
  and no channel has been made and no producer started.
\<close>

theorem GenerateNIDs_huge_n_no_producers_counterexample:
  "GenerateNIDs (2 ^ 63 - 1) 8 (sconst []) [0x00, 0x11, 0x22, 0x33, 0x44, 0x55]
         18446744073709551615 \<lparr>chans = [], goroutines = []\<rparr> =
     (Inl MakeSliceLenOutOfRange, \<lparr>chans = [], goroutines = []\<rparr>)"
  by (simp add: GenerateNIDs_def make_slice_def
        del: GenerateNIDs_start.simps GenerateNIDs_receive.simps)

text \<open>
  Claim C8, as the code has it: for every hardware address and every count \<open>n\<close> that
  \<open>make\<close> accepts as the length of the slice, \<open>GenerateNIDs\<close> takes the number \<open>W\<close> of
  processing units, makes one new channel of buffer capacity \<open>128 * W\<close> and starts
  exactly \<open>W\<close> producers, with the worker indices 0 to \<open>W - 1\<close> in this order, all with
  the given address and all sending on that channel; nothing else is made or started.
\<close>

theorem GenerateNIDs_starts_W_producers:
  "unat n \<le> maxSliceLen \<Longrightarrow> 0 \<le> W \<Longrightarrow>
     snd (GenerateNIDs maxSliceLen W received mac n rt) =
       rt\<lparr>chans := chans rt @ [128 * W],
          goroutines := goroutines rt @
            map (\<lambda>k. \<lparr>g_mac = mac, g_routineID = int k, g_resultChan = length (chans rt)\<rparr>)
              [0..<nat W]\<rparr> \<and>
     chans (snd (GenerateNIDs maxSliceLen W received mac n rt)) ! length (chans rt) = 128 * W \<and>
     int (length (goroutines (snd (GenerateNIDs maxSliceLen W received mac n rt)))) =
       int (length (goroutines rt)) + W"
proof -
  assume n: "unat n \<le> maxSliceLen" and W: "0 \<le> W"
  let ?started = "map (\<lambda>k. \<lparr>g_mac = mac, g_routineID = int k, g_resultChan = length (chans rt)\<rparr>)
              [0..<nat W]"
  from n W have after: "snd (GenerateNIDs maxSliceLen W received mac n rt) =
      rt\<lparr>chans := chans rt @ [128 * W], goroutines := goroutines rt @ ?started\<rparr>"
    by (rule GenerateNIDs_runtime)
  moreover have "(chans rt @ [128 * W]) ! length (chans rt) = 128 * W"
    by simp
  moreover from W have "int (length (goroutines rt @ ?started)) = int (length (goroutines rt)) + W"
    by simp
  ultimately show ?thesis
    by simp
qed

theorem GenerateNIDs_starts_W_producers_witness:
  "unat (3 :: uint64) \<le> 2 ^ 63 - 1 \<and> (0 :: int) \<le> 2 \<and>
   snd (GenerateNIDs (2 ^ 63 - 1) 2 ([1, 1] ## [2, 2] ## [3, 3] ## sconst [])
          [0x00, 0x11, 0x22, 0x33, 0x44, 0x55] 3 \<lparr>chans = [], goroutines = []\<rparr>) =
     \<lparr>chans = [256],
      goroutines =
        [\<lparr>g_mac = [0x00, 0x11, 0x22, 0x33, 0x44, 0x55], g_routineID = 0, g_resultChan = 0\<rparr>,
         \<lparr>g_mac = [0x00, 0x11, 0x22, 0x33, 0x44, 0x55], g_routineID = 1, g_resultChan = 0\<rparr>]\<rparr>"
  using GenerateNIDs_starts_W_producers
          [of 3 "2 ^ 63 - 1" 2 "[1, 1] ## [2, 2] ## [3, 3] ## sconst []"
              "[0x00, 0x11, 0x22, 0x33, 0x44, 0x55]" "\<lparr>chans = [], goroutines = []\<rparr>"]
  by (simp add: upt_conv_Cons)

section \<open>Sorting by creation time\<close>





lemma mset_insert_from_right: "mset (insert_from_right x ys) = add_mset x (mset ys)"
  by (induction ys) simp_all

lemma set_insert_from_right: "set (insert_from_right x ys) = insert x (set ys)"
  by (induction ys) auto

lemma length_insert_from_right: "length (insert_from_right x ys) = Suc (length ys)"
  by (induction ys) simp_all

lemma sorted_insert_from_right:
  "sorted (map creation_time (rev ys)) \<Longrightarrow>
     sorted (map creation_time (rev (insert_from_right x ys)))"
proof (induction ys)
  case Nil
  then show ?case by simp
next
  case (Cons y ys)
  then show ?case
    by (auto simp: sorted_append set_insert_from_right rev_map [symmetric])
qed

text \<open>
  The inner loop, started at the element after a prefix, inserts that element into the
  prefix and leaves the rest alone; no index leaves the slice.
\<close>

lemma insertionSort_inner_eq:
  "insertionSort_inner (pre @ x # post) 0 (int (length pre)) =
     Inr (rev (insert_from_right x (rev pre)) @ post)"
proof (induction pre arbitrary: post rule: rev_induct)
  case Nil
  show ?case
    by (subst insertionSort_inner.simps) (simp del: insertionSort_inner.simps)
next
  case (snoc y pre)
  let ?data = "(pre @ [y]) @ x # post"
  let ?j = "int (length (pre @ [y]))"
  have j: "?j > 0" "nat ?j = Suc (length pre)" "nat (?j - 1) = length pre" "?j - 1 = int (length pre)"
    by simp_all
  have at_j: "?data ! Suc (length pre) = x" and at_j1: "?data ! length pre = y"
    by (simp_all add: nth_append)
  have less: "Less ?data ?j (?j - 1) = Inr (creation_time x < creation_time y)"
    using at_j at_j1 j by (simp add: Less_def creation_time_def word_sless_alt del: append_assoc)
  show ?case
  proof (cases "creation_time x < creation_time y")
    case True
    have "?data[Suc (length pre) := y, length pre := x] = pre @ x # y # post"
      by (simp add: list_update_append)
    then have swap: "Swap ?data ?j (?j - 1) = Inr (pre @ x # y # post)"
      using at_j at_j1 j by (simp add: Swap_def del: append_assoc)
    have "insertionSort_inner ?data 0 ?j = insertionSort_inner (pre @ x # y # post) 0 (?j - 1)"
      using True j(1) less swap
      by (subst insertionSort_inner.simps) (simp del: append_assoc insertionSort_inner.simps)
    also have "\<dots> = Inr (rev (insert_from_right x (rev pre)) @ y # post)"
      unfolding j(4) by (rule snoc.IH)
    finally show ?thesis
      using True by (simp del: insertionSort_inner.simps)
  next
    case False
    have "insertionSort_inner ?data 0 ?j = Inr ?data"
      using False j(1) less
      by (subst insertionSort_inner.simps) (simp del: append_assoc insertionSort_inner.simps)
    with False show ?thesis
      by (simp del: insertionSort_inner.simps)
  qed
qed


lemma insertionSort_outer_sorts:
  "a = 0 \<Longrightarrow> b = int (length data) \<Longrightarrow> 1 \<le> i \<Longrightarrow>
   sorted (map creation_time (take (nat i) data)) \<Longrightarrow>
   \<exists>out. insertionSort_outer data a i b = Inr out \<and> mset out = mset data \<and>
         sorted (map creation_time out)"
proof (induction data a i b rule: insertionSort_outer.induct)
  case (1 data a i b)
  show ?case
  proof (cases "i < b")
    case True
    define pre where "pre = take (nat i) data"
    define x where "x = data ! nat i"
    define post where "post = drop (Suc (nat i)) data"
    define data' where "data' = rev (insert_from_right x (rev pre)) @ post"
    from True "1.prems" have i: "nat i < length data"
      by simp
    then have split: "data = pre @ x # post" and len: "int (length pre) = i"
      using "1.prems" by (simp_all add: pre_def x_def post_def id_take_nth_drop [symmetric])
    have inner: "insertionSort_inner data a i = Inr data'"
      unfolding data'_def using insertionSort_inner_eq [of pre x post] split len "1.prems"(1)
      by (simp del: insertionSort_inner.simps)
    have mset': "mset data' = mset data"
      by (simp add: data'_def split mset_insert_from_right)
    then have length': "length data' = length data"
      by (rule mset_eq_length)
    have "length (rev (insert_from_right x (rev pre))) = nat (i + 1)"
      using len "1.prems" by (simp add: length_insert_from_right)
    then have "take (nat (i + 1)) data' = rev (insert_from_right x (rev pre))"
      by (simp add: data'_def)
    moreover have "sorted (map creation_time (rev (insert_from_right x (rev pre))))"
      using "1.prems" by (intro sorted_insert_from_right) (simp add: pre_def)
    ultimately have "sorted (map creation_time (take (nat (i + 1)) data'))"
      by simp
    with True inner "1.prems" length'
    have "\<exists>out. insertionSort_outer data' a (i + 1) b = Inr out \<and> mset out = mset data' \<and>
         sorted (map creation_time out)"
      by (intro "1.IH") simp_all
    moreover from True inner
    have "insertionSort_outer data a i b = insertionSort_outer data' a (i + 1) b"
      by (subst insertionSort_outer.simps)
         (simp del: insertionSort_outer.simps insertionSort_inner.simps)
    ultimately show ?thesis
      using mset' by (simp del: insertionSort_outer.simps insertionSort_inner.simps)
  next
    case False
    with "1.prems" have "take (nat i) data = data"
      by simp
    moreover from False have "insertionSort_outer data a i b = Inr data"
      by (subst insertionSort_outer.simps)
         (simp del: insertionSort_outer.simps insertionSort_inner.simps)
    ultimately show ?thesis
      using "1.prems" by (simp del: insertionSort_outer.simps insertionSort_inner.simps)
  qed
qed

text \<open>
  The library's \<open>insertionSort\<close>, run on a whole slice through the three methods, ends
  without a panic in a permutation of the slice whose timestamps ascend.
\<close>

lemma insertionSort_sorts:
  "\<exists>out. insertionSort a 0 (Len a) = Inr out \<and> mset out = mset a \<and>
         sorted (map creation_time out)"
proof -
  have "sorted (map creation_time (take (nat 1) a))"
    by (cases a) simp_all
  then show ?thesis
    unfolding insertionSort_def Len_def
    by (intro insertionSort_outer_sorts) simp_all
qed

text \<open>
  The three identifiers of \<open>TestByIDCreationTime\<close>, in the order of the test (second,
  third, first): on a slice of three elements \<open>sort.Sort\<close> is this insertion sort, and
  it puts them in the order the test expects.
\<close>

lemma TestByIDCreationTime_vectors:
  "insertionSort
     [[0xef, 0x61, 0xdc, 0xce, 0x28, 0xda, 0xbd, 0x14, 0x8e, 0xe1, 0xf2, 0x81, 0x57, 0xe9, 0x9a, 0x42],
           [0xa3, 0x7a, 0xdc, 0xce, 0x28, 0xda, 0xbd, 0x14, 0xe1, 0x2b, 0xa2, 0x8a, 0xb7, 0x6f, 0x3b, 0x11],
           [0x7e, 0x58, 0xdc, 0xce, 0x28, 0xda, 0xbd, 0x14, 0x9b, 0x89, 0xd1, 0x2b, 0xc5, 0x8c, 0xa5, 0xe0]] 0
     (Len [[0xef, 0x61, 0xdc, 0xce, 0x28, 0xda, 0xbd, 0x14, 0x8e, 0xe1, 0xf2, 0x81, 0x57, 0xe9, 0x9a, 0x42],
           [0xa3, 0x7a, 0xdc, 0xce, 0x28, 0xda, 0xbd, 0x14, 0xe1, 0x2b, 0xa2, 0x8a, 0xb7, 0x6f, 0x3b, 0x11],
           [0x7e, 0x58, 0xdc, 0xce, 0x28, 0xda, 0xbd, 0x14, 0x9b, 0x89, 0xd1, 0x2b, 0xc5, 0x8c, 0xa5, 0xe0]]) =
   Inr [[0x7e, 0x58, 0xdc, 0xce, 0x28, 0xda, 0xbd, 0x14, 0x9b, 0x89, 0xd1, 0x2b, 0xc5, 0x8c, 0xa5, 0xe0],
           [0xef, 0x61, 0xdc, 0xce, 0x28, 0xda, 0xbd, 0x14, 0x8e, 0xe1, 0xf2, 0x81, 0x57, 0xe9, 0x9a, 0x42],
           [0xa3, 0x7a, 0xdc, 0xce, 0x28, 0xda, 0xbd, 0x14, 0xe1, 0x2b, 0xa2, 0x8a, 0xb7, 0x6f, 0x3b, 0x11]]"
  by code_simp





end
